theory Spec2Isabelle
  imports Main
begin

section \<open>The customers page (src/pages/index.tsx)\<close>

text \<open>
  The page is one React component, \<open>Home\<close>. It reads the customer list through the
  \<open>useSWR\<close> hook with the function \<open>fetcher\<close>, shows it as a table, and adds a
  customer through the handler \<open>handleAddCustomer\<close> of a dialog. The browser functions the
  page calls (\<open>fetch\<close>, \<open>Response.json\<close>, \<open>JSON.stringify\<close>, \<open>alert\<close>) are its
  environment: what \<open>fetch\<close> and \<open>Response.json\<close> settle with are inputs of the
  functions below, and the calls the handler makes are recorded, in order, in a trace.
\<close>

subsection \<open>JavaScript values\<close>

text \<open>
  The values the page handles at run time: what \<open>Response.json\<close> parses, and the object
  literal it serialises. A number is kept as the text \<open>String(n)\<close> gives for it
  (\<open>0\<close> and \<open>-0\<close> both as \<open>''0''\<close>): the page observes a number only through its
  truthiness and through that text. An object is the list of its own properties, each
  key once.
\<close>

datatype js =
    JUndefined
  | JNull
  | JBool bool
  | JNum string
  | JString string
  | JArray "js list"
  | JObject "(string \<times> js) list"

text \<open>What is thrown: an \<open>Error\<close> object (also a \<open>TypeError\<close> or \<open>SyntaxError\<close>) with its
  message, or any other value (\<open>throw body\<close>).\<close>

datatype exn =
    JsError string
  | Thrown js

text \<open>\<open>ToBoolean\<close>, as the conditional operator and \<open>||\<close> apply it.\<close>

fun truthy :: "js \<Rightarrow> bool" where
  "truthy JUndefined = False"
| "truthy JNull = False"
| "truthy (JBool b) = b"
| "truthy (JNum n) = (n \<noteq> ''0'' \<and> n \<noteq> ''NaN'')"
| "truthy (JString s) = (s \<noteq> '''')"
| "truthy (JArray xs) = True"
| "truthy (JObject kvs) = True"

text \<open>\<open>a || b\<close>\<close>

definition js_or :: "js \<Rightarrow> js \<Rightarrow> js" where
  "js_or a b = (if truthy a then a else b)"

text \<open>\<open>Array.prototype.join\<close> with the separator \<open>,\<close> on texts already converted.\<close>

fun join_comma :: "string list \<Rightarrow> string" where
  "join_comma [] = ''''"
| "join_comma [s] = s"
| "join_comma (s # t # ss) = s @ '','' @ join_comma (t # ss)"

text \<open>\<open>ToString\<close>, as the \<open>Error\<close> constructor and a template literal apply it;
  \<open>None\<close> where the conversion throws a \<open>TypeError\<close>. An array joins its elements with
  commas, \<open>undefined\<close> and \<open>null\<close> elements giving the empty text. An object is converted
  by its \<open>toString\<close>: a parsed object inherits the one that gives \<open>[object Object]\<close>,
  unless it has a property \<open>toString\<close> of its own, which is no function (no parsed value
  is); then \<open>valueOf\<close> gives no primitive either and the conversion throws.\<close>

fun to_string :: "js \<Rightarrow> string option"
  and element_strings :: "js list \<Rightarrow> string list option" where
  "to_string JUndefined = Some ''undefined''"
| "to_string JNull = Some ''null''"
| "to_string (JBool b) = Some (if b then ''true'' else ''false'')"
| "to_string (JNum n) = Some n"
| "to_string (JString s) = Some s"
| "to_string (JArray xs) =
     (case element_strings xs of None \<Rightarrow> None | Some ts \<Rightarrow> Some (join_comma ts))"
| "to_string (JObject kvs) =
     (case map_of kvs ''toString'' of None \<Rightarrow> Some ''[object Object]'' | Some f \<Rightarrow> None)"
| "element_strings [] = Some []"
| "element_strings (x # xs) =
     (case (if x = JUndefined \<or> x = JNull then Some '''' else to_string x) of
        None \<Rightarrow> None
      | Some t \<Rightarrow> (case element_strings xs of None \<Rightarrow> None | Some ts \<Rightarrow> Some (t # ts)))"

text \<open>
  \<open>JSON.stringify\<close>, up to the text: the result is the JSON document written, given as
  the value that parsing it gives back. A property whose value is \<open>undefined\<close> is left
  out of an object, an \<open>undefined\<close> element of an array becomes \<open>null\<close>, a number that
  is not finite becomes \<open>null\<close>, and \<open>undefined\<close> itself gives no document.
\<close>

fun json_doc :: "js \<Rightarrow> js"
  and json_elems :: "js list \<Rightarrow> js list"
  and json_members :: "(string \<times> js) list \<Rightarrow> (string \<times> js) list" where
  "json_doc JUndefined = JNull"
| "json_doc JNull = JNull"
| "json_doc (JBool b) = JBool b"
| "json_doc (JNum n) =
     (if n = ''Infinity'' \<or> n = ''-Infinity'' \<or> n = ''NaN'' then JNull else JNum n)"
| "json_doc (JString s) = JString s"
| "json_doc (JArray xs) = JArray (json_elems xs)"
| "json_doc (JObject kvs) = JObject (json_members kvs)"
| "json_elems [] = []"
| "json_elems (x # xs) = json_doc x # json_elems xs"
| "json_members [] = []"
| "json_members ((k, v) # kvs) =
     (if v = JUndefined then json_members kvs else (k, json_doc v) # json_members kvs)"

definition JSON_stringify :: "js \<Rightarrow> js option" where
  "JSON_stringify v = (if v = JUndefined then None else Some (json_doc v))"

text \<open>The keys of a JSON object and the value under a key; \<open>None\<close> where the key is
  absent or the value is no object.\<close>

fun keys_of :: "js \<Rightarrow> string list" where
  "keys_of (JObject kvs) = map fst kvs"
| "keys_of v = []"

fun member :: "js \<Rightarrow> string \<Rightarrow> js option" where
  "member (JObject kvs) k = map_of kvs k"
| "member v k = None"

subsection \<open>Requests and responses\<close>

record request =
  url :: string
  "method" :: string
  headers :: "(string \<times> string) list"
  body :: "js option"

text \<open>A response: its status, and what its \<open>json()\<close> method settles with: the parsed
  body, or the error it rejects with when the body is not valid JSON.\<close>

record response =
  status :: nat
  json :: "exn + js"

text \<open>\<open>response.ok\<close>: the status is in the range 200 to 299.\<close>

definition ok :: "response \<Rightarrow> bool" where
  "ok r = (200 \<le> status r \<and> status r \<le> 299)"

text \<open>\<open>fetch(url)\<close> with no options is a GET request with no body.\<close>

definition get_request :: "string \<Rightarrow> request" where
  "get_request u = \<lparr>url = u, method = ''GET'', headers = [], body = None\<rparr>"

subsection \<open>The fetcher (lines 37 to 42)\<close>

text \<open>
  \<open>fetch\<close> is the browser's: it rejects (a network failure) or resolves with a
  response. The fetcher awaits the response, awaits its parsed body, and only then looks
  at \<open>response.ok\<close>: it throws the parsed body of a response that is not ok and returns
  the parsed body of one that is.
\<close>

definition fetcher :: "(request \<Rightarrow> exn + response) \<Rightarrow> string \<Rightarrow> exn + js" where
  "fetcher fetch u =
     (case fetch (get_request u) of
        Inl e \<Rightarrow> Inl e
      | Inr response \<Rightarrow>
          (case json response of
             Inl e \<Rightarrow> Inl e
           | Inr parsed \<Rightarrow> if \<not> ok response then Inl (Thrown parsed) else Inr parsed))"

subsection \<open>The Controller's first load\<close>

text \<open>
  Modelled from the spec: the Controller is the \<open>useSWR\<close> hook of the swr package, whose
  code is not among the sources; the page only calls it (lines 45 to 48) and takes
  \<open>data\<close>, \<open>error\<close> and \<open>isLoading\<close> from it. These are the three values, as the page
  destructures them.
\<close>

record swr =
  data :: "js option"
  error :: "exn option"
  isLoading :: bool


text \<open>Modelled from the spec: the transitions from \<open>loading\<close> of section 4.1, to
  \<open>ready(data)\<close> with what the fetch returned or to \<open>failed(error)\<close> with what it failed
  with. Only this first load is modelled: what a later revalidation that fails does to
  the cached data is left open by the spec.\<close>

definition swr_settle :: "exn + js \<Rightarrow> swr" where
  "swr_settle r =
     (case r of
        Inr d \<Rightarrow> \<lparr>data = Some d, error = None, isLoading = False\<rparr>
      | Inl e \<Rightarrow> \<lparr>data = None, error = Some e, isLoading = False\<rparr>)"

text \<open>Modelled from the spec: \<open>load()\<close> of section 4.1, the first fetch of the key
  \<open>/api/customers\<close> through the fetcher (lines 45 to 48), settled.\<close>

definition load :: "(request \<Rightarrow> exn + response) \<Rightarrow> swr" where
  "load fetch = swr_settle (fetcher fetch ''/api/customers'')"

subsection \<open>The Controller's revalidation\<close>




subsection \<open>The table body (lines 144 to 153)\<close>

text \<open>The type \<open>Customer\<close> (lines 23 to 28); \<open>Customers\<close> is a list of them.\<close>

record customer =
  firstName :: string
  lastName :: string
  email :: string
  businessName :: "string option"

text \<open>A row of the table: its React key and the texts of its two cells.\<close>

record table_row =
  row_key :: string
  name_cell :: string
  email_cell :: string

text \<open>\<open>data.map\<close>: one row for each customer, in the order of \<open>data\<close>. The name cell
  has three children, the first name, a space and the last name.\<close>

definition table_body :: "customer list \<Rightarrow> table_row list" where
  "table_body customers =
     map (\<lambda>c. \<lparr>row_key = email c,
                name_cell = firstName c @ '' '' @ lastName c,
                email_cell = email c\<rparr>) customers"

subsection \<open>The form and the submit handler (lines 50 to 89)\<close>

text \<open>The five \<open>useState\<close> variables of the component: the dialog's flag and the four
  fields of the draft.\<close>

record ui_state =
  "open" :: bool
  firstName :: string
  lastName :: string
  email :: string
  businessName :: string

text \<open>What the component starts with (lines 51 to 55).\<close>

definition initial_ui :: ui_state where
  "initial_ui =
     \<lparr>open = False, firstName = '''', lastName = '''', email = '''', businessName = ''''\<rparr>"

text \<open>
  The handler's environment: \<open>fetch\<close>, and the engine's wording of the two \<open>TypeError\<close>s
  it can raise: when the property \<open>message\<close> is read from \<open>null\<close> or \<open>undefined\<close>, and
  when a value cannot be converted to a string.
\<close>

record env =
  fetch :: "request \<Rightarrow> exn + response"
  type_error_text :: "js \<Rightarrow> string"
  convert_error_text :: string

text \<open>The calls the handler makes, in the order it makes them: the request it sends and
  what \<open>fetch\<close> settles with, the call of \<open>mutate\<close>, the state setters, the alert.\<close>

datatype effect =
    Request request
  | Response "exn + response"
  | Mutate
  | SetFirstName string
  | SetLastName string
  | SetEmail string
  | SetBusinessName string
  | SetOpen bool
  | Alert string

text \<open>The object literal of lines 58 to 63. \<open>businessName\<close> is a string, truthy when it
  is not empty.\<close>

definition newCustomer :: "ui_state \<Rightarrow> js" where
  "newCustomer s =
     JObject
       [(''firstName'', JString (firstName s)),
        (''lastName'', JString (lastName s)),
        (''email'', JString (email s)),
        (''businessName'',
           if truthy (JString (businessName s)) then JString (businessName s) else JUndefined)]"

text \<open>The request of lines 66 to 70.\<close>

definition create_request :: "ui_state \<Rightarrow> request" where
  "create_request s =
     \<lparr>url = ''/api/customers'',
      method = ''POST'',
      headers = [(''Content-Type'', ''application/json'')],
      body = JSON_stringify (newCustomer s)\<rparr>"

text \<open>Reading the property \<open>message\<close> of a value: a \<open>TypeError\<close> on \<open>null\<close> and
  \<open>undefined\<close>, the property of an object (\<open>undefined\<close> when it has none), and
  \<open>undefined\<close> on the other values, whose prototypes have no such property.\<close>

fun read_message :: "env \<Rightarrow> js \<Rightarrow> exn + js" where
  "read_message en JUndefined = Inl (JsError (type_error_text en JUndefined))"
| "read_message en JNull = Inl (JsError (type_error_text en JNull))"
| "read_message en (JObject kvs) =
     Inr (case map_of kvs ''message'' of None \<Rightarrow> JUndefined | Some v \<Rightarrow> v)"
| "read_message en v = Inr JUndefined"

text \<open>\<open>error.message\<close> for what was caught.\<close>

fun exn_message :: "env \<Rightarrow> exn \<Rightarrow> exn + js" where
  "exn_message en (JsError m) = Inr (JString m)"
| "exn_message en (Thrown v) = read_message en v"

text \<open>\<open>new Error(v)\<close> for a value that is not \<open>undefined\<close>: the error whose message is
  \<open>v\<close> converted to a string. Where the conversion throws, its \<open>TypeError\<close> is what
  leaves the expression instead.\<close>

definition new_Error :: "env \<Rightarrow> js \<Rightarrow> exn" where
  "new_Error en v =
     JsError (case to_string v of Some t \<Rightarrow> t | None \<Rightarrow> convert_error_text en)"

text \<open>
  The \<open>try\<close> block (lines 66 to 85): what it completes with (\<open>Inl\<close> what it throws), the
  state it leaves and the calls it made. The awaits of \<open>fetch\<close> and of \<open>res.json()\<close> can
  throw. The await of \<open>mutate()\<close> on line 78 cannot: called with no argument, the hook's
  \<open>mutate\<close> starts a revalidation and resolves once it has settled, whether the refetch
  succeeded or failed; the hook catches what the fetcher throws and keeps it as \<open>error\<close>.
\<close>

definition try_block :: "env \<Rightarrow> ui_state \<Rightarrow> (exn + unit) \<times> ui_state \<times> effect list" where
  "try_block en s =
     (let req = create_request s; settled = fetch en req; sent = [Request req, Response settled] in
      case settled of
        Inl e \<Rightarrow> (Inl e, s, sent)
      | Inr res \<Rightarrow>
          if \<not> ok res then
            (case json res of
               Inl e \<Rightarrow> (Inl e, s, sent)
             | Inr errorData \<Rightarrow>
                 (case read_message en errorData of
                    Inl e \<Rightarrow> (Inl e, s, sent)
                  | Inr m \<Rightarrow>
                      (Inl (new_Error en (js_or m (JString ''Failed to add customer''))),
                       s, sent)))
          else
            (Inr (),
             s\<lparr>firstName := '''', lastName := '''', email := '''', businessName := '''',
               open := False\<rparr>,
             sent @ [Mutate, SetFirstName '''', SetLastName '''', SetEmail '''',
               SetBusinessName '''', SetOpen False]))"

text \<open>The \<open>catch\<close> block (line 87): the alert with \<open>error.message\<close> put in the template
  literal. Reading the message can throw, and so can its conversion to a string; nothing
  catches that.\<close>

definition catch_block :: "env \<Rightarrow> exn \<Rightarrow> (exn + unit) \<times> effect list" where
  "catch_block en e =
     (case exn_message en e of
        Inl e' \<Rightarrow> (Inl e', [])
      | Inr m \<Rightarrow>
          (case to_string m of
             None \<Rightarrow> (Inl (JsError (convert_error_text en)), [])
           | Some t \<Rightarrow> (Inr (), [Alert (''Error: '' @ t)])))"

text \<open>A run of the handler: whether its promise resolves or rejects, the state after it
  and its trace.\<close>

record outcome =
  result :: "exn + unit"
  final :: ui_state
  trace :: "effect list"

definition handleAddCustomer :: "env \<Rightarrow> ui_state \<Rightarrow> outcome" where
  "handleAddCustomer en s =
     (case try_block en s of
        (Inr u, s', tr) \<Rightarrow> \<lparr>result = Inr (), final = s', trace = tr\<rparr>
      | (Inl e, s', tr) \<Rightarrow>
          (case catch_block en e of
             (r, tr') \<Rightarrow> \<lparr>result = r, final = s', trace = tr @ tr'\<rparr>))"

text \<open>The texts the run showed in alerts, in order.\<close>

fun alerts :: "effect list \<Rightarrow> string list" where
  "alerts [] = []"
| "alerts (Alert t # es) = t # alerts es"
| "alerts (e # es) = alerts es"


subsection \<open>Sample inputs\<close>

text \<open>Two drafts, one without and one with a business name.\<close>

definition draft_ann :: ui_state where
  "draft_ann =
     \<lparr>open = True, firstName = ''Ann'', lastName = ''Lee'', email = ''ann@x.com'',
      businessName = ''''\<rparr>"

definition draft_acme :: ui_state where
  "draft_acme =
     \<lparr>open = True, firstName = ''Ann'', lastName = ''Lee'', email = ''ann@x.com'',
      businessName = ''Acme''\<rparr>"

text \<open>An environment in which \<open>fetch\<close> settles a POST with \<open>posted\<close> and any other
  request with \<open>refetched\<close>.\<close>

definition env_of :: "exn + response \<Rightarrow> exn + response \<Rightarrow> env" where
  "env_of posted refetched =
     \<lparr>fetch = (\<lambda>r. if method r = ''POST'' then posted else refetched),
      type_error_text =
        (\<lambda>v. if v = JNull then ''Cannot read properties of null (reading 'message')''
             else ''Cannot read properties of undefined (reading 'message')''),
      convert_error_text = ''Cannot convert object to primitive value''\<rparr>"

text \<open>A response with status 200 whose body is an HTML page.\<close>

definition unparsable_200 :: response where
  "unparsable_200 =
     \<lparr>status = 200, json = Inl (JsError ''Unexpected token < in JSON at position 0'')\<rparr>"

text \<open>Responses to the POST: the customer was created; the server refuses with a
  message; it refuses with an empty message; it refuses with a message that is an object
  with a \<open>toString\<close> key; a proxy answers with an HTML page.\<close>

definition created_201 :: response where
  "created_201 = \<lparr>status = 201, json = Inr (JObject [(''email'', JString ''ann@x.com'')])\<rparr>"

definition email_exists_400 :: response where
  "email_exists_400 =
     \<lparr>status = 400, json = Inr (JObject [(''message'', JString ''email already exists'')])\<rparr>"

definition empty_message_400 :: response where
  "empty_message_400 = \<lparr>status = 400, json = Inr (JObject [(''message'', JString '''')])\<rparr>"

definition object_message_400 :: response where
  "object_message_400 =
     \<lparr>status = 400,
      json = Inr (JObject [(''message'', JObject [(''toString'', JNum ''1'')])])\<rparr>"

definition html_502 :: response where
  "html_502 =
     \<lparr>status = 502, json = Inl (JsError ''Unexpected token < in JSON at position 0'')\<rparr>"

text \<open>The error body of the spec's example and the response that carries it.\<close>

definition db_down :: js where
  "db_down = JObject [(''code'', JString ''internal_error''), (''message'', JString ''db down'')]"

definition db_down_500 :: response where
  "db_down_500 = \<lparr>status = 500, json = Inr db_down\<rparr>"

text \<open>The list of the spec's example as the server sends it.\<close>

definition ann_list :: js where
  "ann_list =
     JArray [JObject [(''firstName'', JString ''Ann''), (''lastName'', JString ''Lee''),
                      (''email'', JString ''ann@x.com'')]]"

definition customers_200 :: response where
  "customers_200 = \<lparr>status = 200, json = Inr ann_list\<rparr>"

text \<open>Two customers.\<close>

definition ann :: customer where
  "ann =
     \<lparr>customer.firstName = ''Ann'', customer.lastName = ''Lee'',
      customer.email = ''ann@x.com'', customer.businessName = None\<rparr>"

definition bob :: customer where
  "bob =
     \<lparr>customer.firstName = ''Bob'', customer.lastName = ''Ray'',
      customer.email = ''bob@x.com'', customer.businessName = Some ''Acme''\<rparr>"

section \<open>The handler, path by path\<close>

text \<open>One equation for each way through \<open>handleAddCustomer\<close>: \<open>fetch\<close> rejects; the
  response is not ok and its body does not parse, or parses to a value whose \<open>message\<close>
  cannot be read, or can; the response is ok.\<close>

lemma run_rejected:
  "fetch en (create_request s) = Inl e \<Longrightarrow>
   handleAddCustomer en s =
     \<lparr>result = fst (catch_block en e), final = s,
      trace = [Request (create_request s), Response (Inl e)] @ snd (catch_block en e)\<rparr>"
  by (simp add: handleAddCustomer_def try_block_def Let_def split: prod.splits)

lemma run_unparsed:
  "fetch en (create_request s) = Inr res \<Longrightarrow> \<not> ok res \<Longrightarrow> json res = Inl e \<Longrightarrow>
   handleAddCustomer en s =
     \<lparr>result = fst (catch_block en e), final = s,
      trace = [Request (create_request s), Response (Inr res)] @ snd (catch_block en e)\<rparr>"
  by (simp add: handleAddCustomer_def try_block_def Let_def split: prod.splits)

lemma run_unreadable:
  "fetch en (create_request s) = Inr res \<Longrightarrow> \<not> ok res \<Longrightarrow> json res = Inr v \<Longrightarrow>
   read_message en v = Inl e \<Longrightarrow>
   handleAddCustomer en s =
     \<lparr>result = fst (catch_block en e), final = s,
      trace = [Request (create_request s), Response (Inr res)] @ snd (catch_block en e)\<rparr>"
  by (simp add: handleAddCustomer_def try_block_def Let_def split: prod.splits)

lemma run_refused:
  "fetch en (create_request s) = Inr res \<Longrightarrow> \<not> ok res \<Longrightarrow> json res = Inr v \<Longrightarrow>
   read_message en v = Inr m \<Longrightarrow>
   handleAddCustomer en s =
     \<lparr>result = Inr (), final = s,
      trace = [Request (create_request s), Response (Inr res),
               Alert (''Error: '' @
                 (case to_string (js_or m (JString ''Failed to add customer'')) of
                    Some t \<Rightarrow> t | None \<Rightarrow> convert_error_text en))]\<rparr>"
  by (simp add: handleAddCustomer_def try_block_def catch_block_def new_Error_def Let_def
      split: prod.splits)

lemma run_created:
  "fetch en (create_request s) = Inr res \<Longrightarrow> ok res \<Longrightarrow>
   handleAddCustomer en s =
     \<lparr>result = Inr (),
      final = s\<lparr>firstName := '''', lastName := '''', email := '''', businessName := '''',
                open := False\<rparr>,
      trace = [Request (create_request s), Response (Inr res), Mutate, SetFirstName '''',
               SetLastName '''', SetEmail '''', SetBusinessName '''', SetOpen False]\<rparr>"
  by (simp add: handleAddCustomer_def try_block_def Let_def split: prod.splits)

text \<open>The \<open>catch\<close> block makes no call but at most one alert.\<close>

lemma catch_trace:
  "snd (catch_block en e) = [] \<or> (\<exists>t. snd (catch_block en e) = [Alert t])"
  by (simp add: catch_block_def split: sum.splits option.splits)

text \<open>What the \<open>try\<close> block throws for a response that is not ok and whose body parsed.\<close>

lemma try_refused:
  "fetch en (create_request s) = Inr res \<Longrightarrow> \<not> ok res \<Longrightarrow> json res = Inr v \<Longrightarrow>
   read_message en v = Inr m \<Longrightarrow>
   fst (try_block en s) =
     Inl (JsError (case to_string (js_or m (JString ''Failed to add customer'')) of
                     Some t \<Rightarrow> t | None \<Rightarrow> convert_error_text en))"
  by (simp add: try_block_def new_Error_def Let_def)

text \<open>Reading \<open>message\<close> in terms of the keys of the document.\<close>

lemma member_message:
  "member doc ''message'' = Some m \<Longrightarrow> read_message en doc = Inr m"
  by (cases doc) simp_all

lemma read_message_member:
  "doc \<noteq> JNull \<Longrightarrow> doc \<noteq> JUndefined \<Longrightarrow>
   read_message en doc = Inr (case member doc ''message'' of None \<Rightarrow> JUndefined | Some m \<Rightarrow> m)"
  by (cases doc) simp_all

text \<open>What the sample environments answer.\<close>

lemma env_of_post: "fetch (env_of posted refetched) (create_request s) = posted"
  by (simp add: env_of_def create_request_def)

lemma env_of_get: "fetch (env_of posted refetched) (get_request u) = refetched"
  by (simp add: env_of_def get_request_def)

section \<open>The request body\<close>

text \<open>
  C1. Whatever the draft and the environment, the first thing \<open>handleAddCustomer\<close> does
  is send the request \<open>create_request\<close> builds, and the JSON document in its body has the
  keys \<open>firstName\<close>, \<open>lastName\<close> and \<open>email\<close> with the draft's strings as they are. The key
  \<open>businessName\<close> is absent from the document when the draft's business name is the empty
  string, and present with the draft's string, unchanged, when it is not.
\<close>

theorem submit_body_business_name:
  "(\<exists>rest. trace (handleAddCustomer en s) = Request (create_request s) # rest)
   \<and> (\<exists>doc. body (create_request s) = Some doc
        \<and> member doc ''firstName'' = Some (JString (firstName s))
        \<and> member doc ''lastName'' = Some (JString (lastName s))
        \<and> member doc ''email'' = Some (JString (email s))
        \<and> member doc ''businessName'' =
            (if businessName s = '''' then None else Some (JString (businessName s)))
        \<and> keys_of doc =
            (if businessName s = '''' then [''firstName'', ''lastName'', ''email'']
             else [''firstName'', ''lastName'', ''email'', ''businessName'']))"
proof
  show "\<exists>rest. trace (handleAddCustomer en s) = Request (create_request s) # rest"
    by (simp add: handleAddCustomer_def try_block_def Let_def split: sum.splits prod.splits)
next
  show "\<exists>doc. body (create_request s) = Some doc
        \<and> member doc ''firstName'' = Some (JString (firstName s))
        \<and> member doc ''lastName'' = Some (JString (lastName s))
        \<and> member doc ''email'' = Some (JString (email s))
        \<and> member doc ''businessName'' =
            (if businessName s = '''' then None else Some (JString (businessName s)))
        \<and> keys_of doc =
            (if businessName s = '''' then [''firstName'', ''lastName'', ''email'']
             else [''firstName'', ''lastName'', ''email'', ''businessName''])"
    by (simp add: create_request_def newCustomer_def JSON_stringify_def)
qed

theorem submit_body_business_name_witness:
  "member (the (body (create_request draft_ann))) ''businessName'' = None
   \<and> keys_of (the (body (create_request draft_ann))) = [''firstName'', ''lastName'', ''email'']
   \<and> member (the (body (create_request draft_acme))) ''businessName'' = Some (JString ''Acme'')
   \<and> member (the (body (create_request draft_acme))) ''firstName'' = Some (JString ''Ann'')"
  using submit_body_business_name [of en draft_ann] submit_body_business_name [of en draft_acme]
  by (auto simp: draft_ann_def draft_acme_def)

section \<open>The fetcher\<close>

text \<open>
  C9. The fetcher parses the body before it looks at the status. So it returns a value
  exactly when \<open>fetch\<close> resolved with a response that is ok and whose body parsed, to that
  value; and a response whose body does not parse makes it fail with the parse error
  whatever the status, a 2xx status included.
\<close>

theorem fetcher_parses_before_status:
  "((fetcher f u = Inr v) = (\<exists>r. f (get_request u) = Inr r \<and> ok r \<and> json r = Inr v))
   \<and> (f (get_request u) = Inr r' \<and> json r' = Inl e \<longrightarrow> fetcher f u = Inl e)"
  by (auto simp: fetcher_def split: sum.splits)

theorem fetcher_parses_before_status_witness:
  "ok unparsable_200
   \<and> fetcher (fetch (env_of (Inr created_201) (Inr unparsable_200))) ''/api/customers''
       = Inl (JsError ''Unexpected token < in JSON at position 0'')"
  using fetcher_parses_before_status
      [of "fetch (env_of (Inr created_201) (Inr unparsable_200))" "''/api/customers''" _
        unparsable_200 "JsError ''Unexpected token < in JSON at position 0''"]
  by (simp add: env_of_get unparsable_200_def ok_def)

text \<open>
  C4. A response to the GET whose status is not 2xx and whose body is valid JSON makes the
  fetcher fail with the parsed body itself as the thrown value, not with an error object
  of its own; the Controller's first load then ends in the failed state with that value
  as \<open>error\<close>, no data, and not loading. For the status 500 with the body
  \<open>{"code":"internal_error","message":"db down"}\<close> the \<open>message\<close> of the error the
  Controller holds is \<open>db down\<close>.
\<close>

theorem fetcher_throws_parsed_body:
  "(f (get_request u) = Inr r \<and> \<not> ok r \<and> json r = Inr b \<longrightarrow> fetcher f u = Inl (Thrown b))
   \<and> (f (get_request ''/api/customers'') = Inr r \<and> \<not> ok r \<and> json r = Inr b \<longrightarrow>
        load f = \<lparr>data = None, error = Some (Thrown b), isLoading = False\<rparr>)
   \<and> (f (get_request ''/api/customers'') = Inr db_down_500 \<longrightarrow>
        (\<exists>err. load f = \<lparr>data = None, error = Some err, isLoading = False\<rparr>
           \<and> exn_message en err = Inr (JString ''db down'')))"
  by (auto simp: fetcher_def load_def swr_settle_def db_down_500_def db_down_def ok_def)

theorem fetcher_throws_parsed_body_witness:
  "fetch (env_of (Inr created_201) (Inr db_down_500)) (get_request ''/api/customers'')
     = Inr db_down_500
   \<and> \<not> ok db_down_500
   \<and> fetcher (fetch (env_of (Inr created_201) (Inr db_down_500))) ''/api/customers''
       = Inl (Thrown db_down)
   \<and> error (load (fetch (env_of (Inr created_201) (Inr db_down_500)))) = Some (Thrown db_down)
   \<and> exn_message (env_of (Inr created_201) (Inr db_down_500)) (Thrown db_down)
       = Inr (JString ''db down'')"
proof -
  have a: "fetch (env_of (Inr created_201) (Inr db_down_500)) (get_request ''/api/customers'')
      = Inr db_down_500"
    by (rule env_of_get)
  have b: "\<not> ok db_down_500" by (simp add: ok_def db_down_500_def)
  have c: "json db_down_500 = Inr db_down" by (simp add: db_down_500_def)
  from fetcher_throws_parsed_body
      [of "fetch (env_of (Inr created_201) (Inr db_down_500))" "''/api/customers''"
        db_down_500 db_down]
    a b c
  show ?thesis by (simp add: db_down_def)
qed

section \<open>Submitting\<close>

text \<open>
  C2. When the POST is answered with a 2xx status, the run ends with the four fields of
  the draft empty and the dialog's flag false, \<open>setOpen(false)\<close> was called exactly once,
  and the handler's promise resolves.
\<close>

theorem submit_success_resets_and_closes:
  assumes "fetch en (create_request s) = Inr res" and "ok res"
  shows "firstName (final (handleAddCustomer en s)) = ''''
       \<and> lastName (final (handleAddCustomer en s)) = ''''
       \<and> email (final (handleAddCustomer en s)) = ''''
       \<and> businessName (final (handleAddCustomer en s)) = ''''
       \<and> \<not> open (final (handleAddCustomer en s))
       \<and> count_list (trace (handleAddCustomer en s)) (SetOpen False) = 1
       \<and> result (handleAddCustomer en s) = Inr ()"
  using run_created [OF assms] by simp

theorem submit_success_resets_and_closes_witness:
  "fetch (env_of (Inr created_201) (Inr db_down_500)) (create_request draft_acme)
     = Inr created_201
   \<and> ok created_201
   \<and> businessName (final (handleAddCustomer (env_of (Inr created_201) (Inr db_down_500))
        draft_acme)) = ''''
   \<and> \<not> open (final (handleAddCustomer (env_of (Inr created_201) (Inr db_down_500))
        draft_acme))
   \<and> count_list (trace (handleAddCustomer (env_of (Inr created_201) (Inr db_down_500))
        draft_acme)) (SetOpen False) = 1"
proof -
  have a: "fetch (env_of (Inr created_201) (Inr db_down_500)) (create_request draft_acme)
      = Inr created_201"
    by (rule env_of_post)
  have b: "ok created_201" by (simp add: ok_def created_201_def)
  show ?thesis using submit_success_resets_and_closes [OF a b] a b by simp
qed

text \<open>
  C3. \<open>mutate()\<close> is called in a run exactly when \<open>fetch\<close> resolved the POST with a
  response that is ok. Wherever the call stands in the trace, what stands before it is
  the request and that response and nothing else, and no second call follows: it is never
  made before the POST has settled, and never after a POST that failed. (The response is
  received when the promise of \<open>fetch\<close> resolves; the handler does not read the body of a
  response that is ok.)
\<close>

theorem revalidate_only_after_created:
  "((Mutate \<in> set (trace (handleAddCustomer en s)))
      = (\<exists>res. fetch en (create_request s) = Inr res \<and> ok res))
   \<and> (\<forall>before after. trace (handleAddCustomer en s) = before @ Mutate # after \<longrightarrow>
        (\<exists>res. fetch en (create_request s) = Inr res \<and> ok res
           \<and> before = [Request (create_request s), Response (Inr res)]
           \<and> Mutate \<notin> set after))"
proof (cases "fetch en (create_request s)")
  case (Inl e)
  from run_rejected [OF Inl] catch_trace [of en e] Inl show ?thesis
    by (auto simp: Cons_eq_append_conv append_eq_Cons_conv)
next
  case (Inr res)
  show ?thesis
  proof (cases "ok res")
    case True
    from run_created [OF Inr True] Inr True show ?thesis
      by (auto simp: Cons_eq_append_conv append_eq_Cons_conv)
  next
    case False
    show ?thesis
    proof (cases "json res")
      case (Inl e)
      from run_unparsed [OF Inr False Inl] catch_trace [of en e] Inr False show ?thesis
        by (auto simp: Cons_eq_append_conv append_eq_Cons_conv)
    next
      case jr: (Inr v)
      show ?thesis
      proof (cases "read_message en v")
        case (Inl e)
        from run_unreadable [OF Inr False jr Inl] catch_trace [of en e] Inr False show ?thesis
          by (auto simp: Cons_eq_append_conv append_eq_Cons_conv)
      next
        case rm: (Inr m)
        from run_refused [OF Inr False jr rm] Inr False show ?thesis
          by (auto simp: Cons_eq_append_conv append_eq_Cons_conv)
      qed
    qed
  qed
qed

theorem revalidate_only_after_created_witness:
  "fetch (env_of (Inr created_201) (Inr customers_200)) (create_request draft_ann)
     = Inr created_201
   \<and> ok created_201
   \<and> trace (handleAddCustomer (env_of (Inr created_201) (Inr customers_200)) draft_ann)
       = [Request (create_request draft_ann), Response (Inr created_201)] @ Mutate #
         [SetFirstName '''', SetLastName '''', SetEmail '''', SetBusinessName '''', SetOpen False]
   \<and> Mutate \<in> set (trace (handleAddCustomer (env_of (Inr created_201) (Inr customers_200))
        draft_ann))
   \<and> Mutate \<notin> set (trace (handleAddCustomer (env_of (Inr email_exists_400) (Inr customers_200))
        draft_ann))"
proof -
  have a: "fetch (env_of (Inr created_201) (Inr customers_200)) (create_request draft_ann)
      = Inr created_201"
    by (rule env_of_post)
  have b: "ok created_201" by (simp add: ok_def created_201_def)
  have d: "\<not> ok email_exists_400" by (simp add: ok_def email_exists_400_def)
  have e: "fetch (env_of (Inr email_exists_400) (Inr customers_200)) (create_request draft_ann)
      = Inr email_exists_400"
    by (rule env_of_post)
  from revalidate_only_after_created [of "env_of (Inr created_201) (Inr customers_200)" draft_ann]
       revalidate_only_after_created
         [of "env_of (Inr email_exists_400) (Inr customers_200)" draft_ann]
       run_created [OF a b] a b d e
  show ?thesis by simp
qed

text \<open>
  C5, as amended. When the POST is answered with a status that is not 2xx and a JSON body
  whose \<open>message\<close> is a string that is not empty, the \<open>try\<close> block throws an error with
  exactly that string as its message, the alert shows it after \<open>Error: \<close>, and the run
  leaves the state, the four fields of the draft among it, as it found it.
\<close>

theorem refused_post_carries_message:
  assumes "fetch en (create_request s) = Inr res" and "\<not> ok res" and "json res = Inr doc"
    and "member doc ''message'' = Some (JString m)" and "m \<noteq> ''''"
  shows "fst (try_block en s) = Inl (JsError m)
       \<and> alerts (trace (handleAddCustomer en s)) = [''Error: '' @ m]
       \<and> final (handleAddCustomer en s) = s"
proof -
  have rm: "read_message en doc = Inr (JString m)"
    using assms(4) by (rule member_message)
  have keep: "js_or (JString m) (JString ''Failed to add customer'') = JString m"
    using assms(5) by (simp add: js_or_def)
  from try_refused [OF assms(1-3) rm] run_refused [OF assms(1-3) rm] keep
  show ?thesis by simp
qed

theorem refused_post_carries_message_witness:
  "fetch (env_of (Inr email_exists_400) (Inr customers_200)) (create_request draft_acme)
     = Inr email_exists_400
   \<and> \<not> ok email_exists_400
   \<and> member (JObject [(''message'', JString ''email already exists'')]) ''message''
       = Some (JString ''email already exists'')
   \<and> alerts (trace (handleAddCustomer (env_of (Inr email_exists_400) (Inr customers_200))
        draft_acme)) = [''Error: email already exists'']
   \<and> final (handleAddCustomer (env_of (Inr email_exists_400) (Inr customers_200)) draft_acme)
       = draft_acme"
proof -
  have a: "fetch (env_of (Inr email_exists_400) (Inr customers_200)) (create_request draft_acme)
      = Inr email_exists_400"
    by (rule env_of_post)
  have b: "\<not> ok email_exists_400" by (simp add: ok_def email_exists_400_def)
  have c: "json email_exists_400 = Inr (JObject [(''message'', JString ''email already exists'')])"
    by (simp add: email_exists_400_def)
  have d: "member (JObject [(''message'', JString ''email already exists'')]) ''message''
       = Some (JString ''email already exists'')" by simp
  have e: "''email already exists'' \<noteq> ''''" by simp
  from refused_post_carries_message [OF a b c d e] a b d show ?thesis by simp
qed

text \<open>
  C5 as it is stated fails for a body whose \<open>message\<close> is the empty string: the body has
  the field, \<open>||\<close> on line 74 takes the empty string for absent, and the run fails with
  the fallback instead of the field's value.
\<close>

theorem refused_post_empty_message:
  "fetch (env_of (Inr empty_message_400) (Inr customers_200)) (create_request draft_acme)
     = Inr empty_message_400
   \<and> \<not> ok empty_message_400
   \<and> json empty_message_400 = Inr (JObject [(''message'', JString '''')])
   \<and> member (JObject [(''message'', JString '''')]) ''message'' = Some (JString '''')
   \<and> fst (try_block (env_of (Inr empty_message_400) (Inr customers_200)) draft_acme)
       = Inl (JsError ''Failed to add customer'')
   \<and> alerts (trace (handleAddCustomer (env_of (Inr empty_message_400) (Inr customers_200))
        draft_acme)) = [''Error: Failed to add customer'']"
proof -
  have a: "fetch (env_of (Inr empty_message_400) (Inr customers_200)) (create_request draft_acme)
      = Inr empty_message_400"
    by (rule env_of_post)
  have b: "\<not> ok empty_message_400" by (simp add: ok_def empty_message_400_def)
  have c: "json empty_message_400 = Inr (JObject [(''message'', JString '''')])"
    by (simp add: empty_message_400_def)
  have rm: "read_message (env_of (Inr empty_message_400) (Inr customers_200))
      (JObject [(''message'', JString '''')]) = Inr (JString '''')" by simp
  from try_refused [OF a b c rm] run_refused [OF a b c rm] a b c
  show ?thesis by (simp add: js_or_def)
qed

text \<open>
  C6, as amended. When the POST is answered with a status that is not 2xx and a body
  that is valid JSON other than \<open>null\<close>, the run fails with the body's \<open>message\<close> turned
  into a string when the body is an object that has the field with a truthy value that
  can be turned into one (a string that is not empty is carried as it is), and with
  \<open>Failed to add customer\<close> when the body has no such field or its value is falsy (the
  empty string, \<open>null\<close>, \<open>false\<close>, \<open>0\<close>). When the value is truthy and cannot be turned
  into a string (an object with a \<open>toString\<close> key of its own, or an array that holds
  one), the run fails with the message of the \<open>TypeError\<close> of the conversion. When the
  body is not valid JSON the run fails with the message of the parse error, and when the
  body is \<open>null\<close> with the message of the \<open>TypeError\<close> raised by reading \<open>message\<close> from
  it; the fallback is used in none of these cases.
\<close>

theorem refused_post_message_or_fallback:
  "(fetch en (create_request s) = Inr res \<and> \<not> ok res \<and> json res = Inr doc
      \<and> doc \<noteq> JNull \<and> doc \<noteq> JUndefined \<longrightarrow>
      (\<exists>msg. fst (try_block en s) = Inl (JsError msg)
          \<and> alerts (trace (handleAddCustomer en s)) = [''Error: '' @ msg]
          \<and> msg = (case member doc ''message'' of
                     None \<Rightarrow> ''Failed to add customer''
                   | Some m \<Rightarrow>
                       if truthy m
                       then (case to_string m of Some t \<Rightarrow> t | None \<Rightarrow> convert_error_text en)
                       else ''Failed to add customer'')))
   \<and> (fetch en (create_request s) = Inr res \<and> \<not> ok res \<and> json res = Inl (JsError t) \<longrightarrow>
        fst (try_block en s) = Inl (JsError t)
        \<and> alerts (trace (handleAddCustomer en s)) = [''Error: '' @ t])
   \<and> (fetch en (create_request s) = Inr res \<and> \<not> ok res \<and> json res = Inr JNull \<longrightarrow>
        fst (try_block en s) = Inl (JsError (type_error_text en JNull))
        \<and> alerts (trace (handleAddCustomer en s)) = [''Error: '' @ type_error_text en JNull])"
proof (intro conjI impI)
  assume h: "fetch en (create_request s) = Inr res \<and> \<not> ok res \<and> json res = Inr doc
      \<and> doc \<noteq> JNull \<and> doc \<noteq> JUndefined"
  then have f: "fetch en (create_request s) = Inr res" and n: "\<not> ok res"
    and j: "json res = Inr doc" and d: "doc \<noteq> JNull" "doc \<noteq> JUndefined" by simp_all
  note rm = read_message_member [OF d, of en]
  from try_refused [OF f n j rm] run_refused [OF f n j rm]
  show "\<exists>msg. fst (try_block en s) = Inl (JsError msg)
          \<and> alerts (trace (handleAddCustomer en s)) = [''Error: '' @ msg]
          \<and> msg = (case member doc ''message'' of
                     None \<Rightarrow> ''Failed to add customer''
                   | Some m \<Rightarrow>
                       if truthy m
                       then (case to_string m of Some t \<Rightarrow> t | None \<Rightarrow> convert_error_text en)
                       else ''Failed to add customer'')"
    by (simp add: js_or_def split: option.splits)
next
  assume h: "fetch en (create_request s) = Inr res \<and> \<not> ok res \<and> json res = Inl (JsError t)"
  then have f: "fetch en (create_request s) = Inr res" and n: "\<not> ok res"
    and j: "json res = Inl (JsError t)" by simp_all
  from f n j show "fst (try_block en s) = Inl (JsError t)"
    by (simp add: try_block_def Let_def)
  from run_unparsed [OF f n j] show "alerts (trace (handleAddCustomer en s)) = [''Error: '' @ t]"
    by (simp add: catch_block_def)
next
  assume h: "fetch en (create_request s) = Inr res \<and> \<not> ok res \<and> json res = Inr JNull"
  then have f: "fetch en (create_request s) = Inr res" and n: "\<not> ok res"
    and j: "json res = Inr JNull" by simp_all
  have rm: "read_message en JNull = Inl (JsError (type_error_text en JNull))" by simp
  from f n j show "fst (try_block en s) = Inl (JsError (type_error_text en JNull))"
    by (simp add: try_block_def Let_def)
  from run_unreadable [OF f n j rm]
  show "alerts (trace (handleAddCustomer en s)) = [''Error: '' @ type_error_text en JNull]"
    by (simp add: catch_block_def)
qed

theorem refused_post_message_or_fallback_witness:
  "fetch (env_of (Inr empty_message_400) (Inr customers_200)) (create_request draft_ann)
     = Inr empty_message_400
   \<and> \<not> ok empty_message_400
   \<and> alerts (trace (handleAddCustomer (env_of (Inr empty_message_400) (Inr customers_200))
        draft_ann)) = [''Error: Failed to add customer'']
   \<and> alerts (trace (handleAddCustomer (env_of (Inr email_exists_400) (Inr customers_200))
        draft_ann)) = [''Error: email already exists'']
   \<and> alerts (trace (handleAddCustomer (env_of (Inr object_message_400) (Inr customers_200))
        draft_ann)) = [''Error: Cannot convert object to primitive value'']
   \<and> alerts (trace (handleAddCustomer (env_of (Inr html_502) (Inr customers_200))
        draft_ann)) = [''Error: Unexpected token < in JSON at position 0'']"
proof -
  have a: "fetch (env_of (Inr empty_message_400) (Inr customers_200)) (create_request draft_ann)
      = Inr empty_message_400"
    by (rule env_of_post)
  have b: "\<not> ok empty_message_400" by (simp add: ok_def empty_message_400_def)
  have c: "json empty_message_400 = Inr (JObject [(''message'', JString '''')])"
    by (simp add: empty_message_400_def)
  have a2: "fetch (env_of (Inr email_exists_400) (Inr customers_200)) (create_request draft_ann)
      = Inr email_exists_400"
    by (rule env_of_post)
  have b2: "\<not> ok email_exists_400" by (simp add: ok_def email_exists_400_def)
  have c2: "json email_exists_400 = Inr (JObject [(''message'', JString ''email already exists'')])"
    by (simp add: email_exists_400_def)
  have a3: "fetch (env_of (Inr html_502) (Inr customers_200)) (create_request draft_ann)
      = Inr html_502"
    by (rule env_of_post)
  have b3: "\<not> ok html_502" by (simp add: ok_def html_502_def)
  have c3: "json html_502 = Inl (JsError ''Unexpected token < in JSON at position 0'')"
    by (simp add: html_502_def)
  have a4: "fetch (env_of (Inr object_message_400) (Inr customers_200)) (create_request draft_ann)
      = Inr object_message_400"
    by (rule env_of_post)
  have b4: "\<not> ok object_message_400" by (simp add: ok_def object_message_400_def)
  have c4: "json object_message_400
      = Inr (JObject [(''message'', JObject [(''toString'', JNum ''1'')])])"
    by (simp add: object_message_400_def)
  have t4: "convert_error_text (env_of (Inr object_message_400) (Inr customers_200))
      = ''Cannot convert object to primitive value''"
    by (simp add: env_of_def)
  from refused_post_message_or_fallback
         [of "env_of (Inr empty_message_400) (Inr customers_200)" draft_ann empty_message_400
             "JObject [(''message'', JString '''')]"]
       refused_post_message_or_fallback
         [of "env_of (Inr email_exists_400) (Inr customers_200)" draft_ann email_exists_400
             "JObject [(''message'', JString ''email already exists'')]"]
       refused_post_message_or_fallback
         [of "env_of (Inr html_502) (Inr customers_200)" draft_ann html_502 _
             "''Unexpected token < in JSON at position 0''"]
       refused_post_message_or_fallback
         [of "env_of (Inr object_message_400) (Inr customers_200)" draft_ann object_message_400
             "JObject [(''message'', JObject [(''toString'', JNum ''1'')])]"]
       a b c a2 b2 c2 a3 b3 c3 a4 b4 c4 t4
  show ?thesis by simp
qed

text \<open>
  C6 as it is stated fails for a body that is not JSON, here the HTML page of a proxy
  under the status 502: the body has no \<open>message\<close> field, \<open>res.json()\<close> on line 73 rejects
  inside the \<open>try\<close> block, and the run fails with the message of the parse error, not with
  \<open>Failed to add customer\<close>.
\<close>

theorem refused_post_unparsable_body:
  "fetch (env_of (Inr html_502) (Inr customers_200)) (create_request draft_ann) = Inr html_502
   \<and> \<not> ok html_502
   \<and> json html_502 = Inl (JsError ''Unexpected token < in JSON at position 0'')
   \<and> fst (try_block (env_of (Inr html_502) (Inr customers_200)) draft_ann)
       = Inl (JsError ''Unexpected token < in JSON at position 0'')
   \<and> alerts (trace (handleAddCustomer (env_of (Inr html_502) (Inr customers_200)) draft_ann))
       = [''Error: Unexpected token < in JSON at position 0'']
   \<and> ''Unexpected token < in JSON at position 0'' \<noteq> ''Failed to add customer''"
proof -
  have a: "fetch (env_of (Inr html_502) (Inr customers_200)) (create_request draft_ann)
      = Inr html_502"
    by (rule env_of_post)
  have b: "\<not> ok html_502" by (simp add: ok_def html_502_def)
  have c: "json html_502 = Inl (JsError ''Unexpected token < in JSON at position 0'')"
    by (simp add: html_502_def)
  have t: "fst (try_block (env_of (Inr html_502) (Inr customers_200)) draft_ann)
       = Inl (JsError ''Unexpected token < in JSON at position 0'')"
    using a b c by (simp add: try_block_def Let_def)
  from run_unparsed [OF a b c] a b c t show ?thesis by (simp add: catch_block_def)
qed

text \<open>
  C10. When the POST fails, by \<open>fetch\<close> rejecting or by a response whose status is not
  2xx, the run leaves the state as it found it, so the dialog's flag keeps its value and
  an open dialog stays open. \<open>mutate()\<close> is not called, and it is the handler's only way
  to the Controller's cache. The whole trace is the request, what \<open>fetch\<close> settled with,
  and at most one alert: no setter is called.
\<close>

theorem failed_post_changes_nothing:
  assumes "fetch en (create_request s) = Inl e
           \<or> (fetch en (create_request s) = Inr res \<and> \<not> ok res)"
  shows "final (handleAddCustomer en s) = s
       \<and> open (final (handleAddCustomer en s)) = open s
       \<and> Mutate \<notin> set (trace (handleAddCustomer en s))
       \<and> (\<exists>shown. trace (handleAddCustomer en s)
              = [Request (create_request s), Response (fetch en (create_request s))]
                @ map Alert shown
            \<and> length shown \<le> 1)"
proof -
  have shape: "\<exists>shown. tr = map Alert shown \<and> length shown \<le> 1"
    if "tr = [] \<or> (\<exists>t. tr = [Alert t])" for tr
    using that by (auto intro: exI [of _ "[]"] exI [of _ "[t]" for t])
  from assms show ?thesis
  proof
    assume f: "fetch en (create_request s) = Inl e"
    from run_rejected [OF f] shape [OF catch_trace [of en e]] f show ?thesis by auto
  next
    assume "fetch en (create_request s) = Inr res \<and> \<not> ok res"
    then have f: "fetch en (create_request s) = Inr res" and n: "\<not> ok res" by simp_all
    show ?thesis
    proof (cases "json res")
      case (Inl e')
      from run_unparsed [OF f n Inl] shape [OF catch_trace [of en e']] f show ?thesis by auto
    next
      case (Inr v)
      show ?thesis
      proof (cases "read_message en v")
        case (Inl e')
        from run_unreadable [OF f n Inr Inl] shape [OF catch_trace [of en e']] f show ?thesis
          by auto
      next
        case rm: (Inr m)
        have one: "\<exists>shown. [Alert t] = map Alert shown \<and> length shown \<le> 1" for t
          by (rule exI [of _ "[t]"]) simp
        from run_refused [OF f n Inr rm] f one show ?thesis by simp
      qed
    qed
  qed
qed

theorem failed_post_changes_nothing_witness:
  "fetch (env_of (Inr email_exists_400) (Inr customers_200)) (create_request draft_ann)
     = Inr email_exists_400
   \<and> \<not> ok email_exists_400
   \<and> final (handleAddCustomer (env_of (Inr email_exists_400) (Inr customers_200)) draft_ann)
       = draft_ann
   \<and> open (final (handleAddCustomer (env_of (Inr email_exists_400) (Inr customers_200))
        draft_ann))
   \<and> Mutate \<notin> set (trace (handleAddCustomer (env_of (Inr email_exists_400) (Inr customers_200))
        draft_ann))"
proof -
  have d: "\<not> ok email_exists_400" by (simp add: ok_def email_exists_400_def)
  have e: "fetch (env_of (Inr email_exists_400) (Inr customers_200)) (create_request draft_ann)
      = Inr email_exists_400"
    by (rule env_of_post)
  have o: "open draft_ann" by (simp add: draft_ann_def)
  from failed_post_changes_nothing
      [of "env_of (Inr email_exists_400) (Inr customers_200)" draft_ann _ email_exists_400] d e o
  show ?thesis by simp
qed

section \<open>The table\<close>

text \<open>
  C8. The table body has one row for each customer of the loaded list, in the list's
  order: the row at a position shows the first name, a space and the last name of the
  customer at that position, and that customer's email. For the list of the one customer
  Ann Lee, \<open>ann@x.com\<close>, it has exactly one row, with the name \<open>Ann Lee\<close> and the email
  \<open>ann@x.com\<close>.
\<close>

theorem table_rows_in_server_order:
  "length (table_body cs) = length cs
   \<and> (\<forall>i<length cs. table_body cs ! i =
         \<lparr>row_key = customer.email (cs ! i),
          name_cell = customer.firstName (cs ! i) @ '' '' @ customer.lastName (cs ! i),
          email_cell = customer.email (cs ! i)\<rparr>)
   \<and> table_body [ann]
       = [\<lparr>row_key = ''ann@x.com'', name_cell = ''Ann Lee'', email_cell = ''ann@x.com''\<rparr>]"
  by (simp add: table_body_def ann_def)

theorem table_rows_in_server_order_witness:
  "(1::nat) < length [ann, bob]
   \<and> length (table_body [ann, bob]) = 2
   \<and> table_body [ann, bob] ! 1
       = \<lparr>row_key = ''bob@x.com'', name_cell = ''Bob Ray'', email_cell = ''bob@x.com''\<rparr>"
  using table_rows_in_server_order [of "[ann, bob]"] by (simp add: bob_def)

section \<open>The Controller's states\<close>




end
